theory Spec2Isabelle
  imports Complex_Main "HOL-Library.Sublist"
begin

section \<open>Data model\<close>

text \<open>
  A cell of the table as \<^verbatim>\<open>pd.read_csv\<close> delivers it: a missing value, a string or a
  number. A finite float is modelled by its exact rational value; comparisons of such
  values are exact. Booleans count as the numbers 0 and 1, as they do in numpy.
\<close>

datatype cell = NaN | Str string | Num rat

datatype error =
    KeyError string
  | TypeError
  | IndexingError
  | NameError
  | FileNotFoundError
  | BadZipFile
  | ParserError

text \<open>
  A DataFrame: the column names in order and the rows in order, a row being the list of its
  cells in column order. Row labels (the index) travel with the rows and are not modelled.
\<close>

record dataframe =
  columns :: "string list"
  rows :: "cell list list"

text \<open>Sequencing of computations that may raise: the first exception ends the run.\<close>

definition bindE :: "error + 'a \<Rightarrow> ('a \<Rightarrow> error + 'b) \<Rightarrow> error + 'b" where
  "bindE m f = (case m of Inl e \<Rightarrow> Inl e | Inr v \<Rightarrow> f v)"

text \<open>
  The cell of a row under a column name. A row that is shorter than the header holds a
  missing value there, which is how \<^verbatim>\<open>read_csv\<close> pads short lines.
\<close>

definition cell_of :: "string list \<Rightarrow> cell list \<Rightarrow> string \<Rightarrow> cell" where
  "cell_of cols r name = (case map_of (zip cols r) name of Some c \<Rightarrow> c | None \<Rightarrow> NaN)"

text \<open>\<^verbatim>\<open>df[name]\<close>: the column as a Series, KeyError when there is no such column.\<close>

definition getitem :: "dataframe \<Rightarrow> string \<Rightarrow> error + cell list" where
  "getitem df name =
     (if name \<in> set (columns df)
      then Inr (map (\<lambda>r. cell_of (columns df) r name) (rows df))
      else Inl (KeyError name))"

section \<open>Series operations\<close>

text \<open>
  \<^verbatim>\<open>Series.isin(values)\<close>: elementwise membership. pandas lets a missing value match a
  missing value of \<^verbatim>\<open>values\<close>, as equality of cells does here.
\<close>

definition isin :: "cell list \<Rightarrow> cell list \<Rightarrow> bool list" where
  "isin s vals = map (\<lambda>c. c \<in> set vals) s"

fun is_str :: "cell \<Rightarrow> bool" where
  "is_str (Str s) = True"
| "is_str c = False"

fun num_test :: "(rat \<Rightarrow> bool) \<Rightarrow> cell \<Rightarrow> bool" where
  "num_test p (Num v) = p v"
| "num_test p c = False"

text \<open>
  An ordering comparison of a Series with a number: a missing value compares False,
  a string raises TypeError.
\<close>

definition series_cmp :: "(rat \<Rightarrow> bool) \<Rightarrow> cell list \<Rightarrow> error + bool list" where
  "series_cmp p s =
     (if \<exists>c\<in>set s. is_str c then Inl TypeError else Inr (map (num_test p) s))"

definition series_ge :: "cell list \<Rightarrow> int \<Rightarrow> error + bool list" where
  "series_ge s x = series_cmp (\<lambda>v. of_int x \<le> v) s"

definition series_le :: "cell list \<Rightarrow> int \<Rightarrow> error + bool list" where
  "series_le s x = series_cmp (\<lambda>v. v \<le> of_int x) s"

text \<open>\<^verbatim>\<open>==\<close> on cells: a missing value equals nothing, not even itself; it never raises.\<close>

definition cell_eq :: "cell \<Rightarrow> cell \<Rightarrow> bool" where
  "cell_eq a b = (a \<noteq> NaN \<and> b \<noteq> NaN \<and> a = b)"

definition series_eq :: "cell list \<Rightarrow> cell \<Rightarrow> bool list" where
  "series_eq s v = map (\<lambda>c. cell_eq c v) s"

text \<open>\<^verbatim>\<open>&\<close> on boolean Series.\<close>

definition mask_and :: "bool list \<Rightarrow> bool list \<Rightarrow> bool list" where
  "mask_and a b = map2 (\<and>) a b"

text \<open>Selection by a boolean mask: the entries whose mask bit is set, in their order.\<close>

definition compress :: "bool list \<Rightarrow> 'a list \<Rightarrow> 'a list" where
  "compress bm xs = map fst (filter snd (zip xs bm))"

text \<open>\<^verbatim>\<open>df[mask]\<close>: a new frame with the same columns and the selected rows.\<close>

definition select_rows :: "dataframe \<Rightarrow> bool list \<Rightarrow> error + dataframe" where
  "select_rows df bm =
     (if length bm = length (rows df)
      then Inr \<lparr>columns = columns df, rows = compress bm (rows df)\<rparr>
      else Inl IndexingError)"

section \<open>The filter pipeline\<close>

text \<open>
  The values the sidebar leaves in the variables \<^verbatim>\<open>ng\<close>, \<^verbatim>\<open>rt\<close>, \<^verbatim>\<open>co\<close>, \<^verbatim>\<open>ag\<close>,
  \<^verbatim>\<open>host_type\<close>, \<^verbatim>\<open>price_range\<close>, \<^verbatim>\<open>year_range\<close> and \<^verbatim>\<open>min_nights\<close>. The sliders are
  built from integer bounds, so the ranges are pairs of integers.
\<close>

record filter_spec =
  ng :: "cell list"
  rt :: "cell list"
  co :: "cell list"
  ag :: cell
  host_type :: string
  price_range :: "int \<times> int"
  year_range :: "int \<times> int"
  min_nights :: "int \<times> int"

text \<open>The nine-fold mask and the first selection, in the order Python evaluates them.\<close>

definition base_filter :: "dataframe \<Rightarrow> filter_spec \<Rightarrow> error + dataframe" where
  "base_filter filtered sp =
     bindE (getitem filtered ''neighbourhood group'') (\<lambda>s1.
     bindE (getitem filtered ''room type'') (\<lambda>s2.
     bindE (getitem filtered ''country'') (\<lambda>s3.
     bindE (getitem filtered ''price'') (\<lambda>s4.
     bindE (series_ge s4 (fst (price_range sp))) (\<lambda>m4.
     bindE (getitem filtered ''price'') (\<lambda>s5.
     bindE (series_le s5 (snd (price_range sp))) (\<lambda>m5.
     bindE (getitem filtered ''Construction year'') (\<lambda>s6.
     bindE (series_ge s6 (fst (year_range sp))) (\<lambda>m6.
     bindE (getitem filtered ''Construction year'') (\<lambda>s7.
     bindE (series_le s7 (snd (year_range sp))) (\<lambda>m7.
     bindE (getitem filtered ''minimum nights'') (\<lambda>s8.
     bindE (series_ge s8 (fst (min_nights sp))) (\<lambda>m8.
     bindE (getitem filtered ''minimum nights'') (\<lambda>s9.
     bindE (series_le s9 (snd (min_nights sp))) (\<lambda>m9.
       select_rows filtered
         (mask_and (mask_and (mask_and (mask_and (mask_and (mask_and (mask_and (mask_and
            (isin s1 (ng sp)) (isin s2 (rt sp))) (isin s3 (co sp))) m4) m5) m6) m7) m8) m9)
     )))))))))))))))"

text \<open>\<^verbatim>\<open>filtered[filtered[name] == v]\<close>\<close>

definition eq_filter :: "dataframe \<Rightarrow> string \<Rightarrow> cell \<Rightarrow> error + dataframe" where
  "eq_filter filtered name v =
     bindE (getitem filtered name) (\<lambda>s. select_rows filtered (series_eq s v))"

definition ag_filter :: "cell \<Rightarrow> dataframe \<Rightarrow> error + dataframe" where
  "ag_filter a filtered =
     (if a \<noteq> Str ''All'' then eq_filter filtered ''availability_group'' a
      else Inr filtered)"

definition host_filter :: "string \<Rightarrow> dataframe \<Rightarrow> error + dataframe" where
  "host_filter h filtered =
     (if h \<noteq> ''All''
      then (if sublist ''Small'' h then eq_filter filtered ''host_is_big'' (Num 0)
            else eq_filter filtered ''host_is_big'' (Num 1))
      else Inr filtered)"

text \<open>Lines 89 to 110: the copy is the same table; then the three selections.\<close>

definition apply_filters :: "dataframe \<Rightarrow> filter_spec \<Rightarrow> error + dataframe" where
  "apply_filters df sp =
     bindE (base_filter df sp) (\<lambda>f1.
     bindE (ag_filter (ag sp) f1) (\<lambda>f2.
       host_filter (host_type sp) f2))"

section \<open>What the specification says the pipeline computes\<close>

text \<open>
  The constraints in the words of the specification: membership of the row's value in the
  permitted set, an inclusive range, an equality that applies unless the choice is the
  sentinel. The pipeline above is compared with these.
\<close>

definition in_set :: "string list \<Rightarrow> cell list \<Rightarrow> string \<Rightarrow> cell list \<Rightarrow> bool" where
  "in_set cols r name permitted = (cell_of cols r name \<in> set permitted)"

definition in_range :: "string list \<Rightarrow> cell list \<Rightarrow> string \<Rightarrow> int \<times> int \<Rightarrow> bool" where
  "in_range cols r name rng =
     (case cell_of cols r name of
        Num v \<Rightarrow> of_int (fst rng) \<le> v \<and> v \<le> of_int (snd rng)
      | _ \<Rightarrow> False)"

definition ok_ng :: "string list \<Rightarrow> filter_spec \<Rightarrow> cell list \<Rightarrow> bool" where
  "ok_ng cols sp r = in_set cols r ''neighbourhood group'' (ng sp)"

definition ok_rt :: "string list \<Rightarrow> filter_spec \<Rightarrow> cell list \<Rightarrow> bool" where
  "ok_rt cols sp r = in_set cols r ''room type'' (rt sp)"

definition ok_co :: "string list \<Rightarrow> filter_spec \<Rightarrow> cell list \<Rightarrow> bool" where
  "ok_co cols sp r = in_set cols r ''country'' (co sp)"

definition ok_price :: "string list \<Rightarrow> filter_spec \<Rightarrow> cell list \<Rightarrow> bool" where
  "ok_price cols sp r = in_range cols r ''price'' (price_range sp)"

definition ok_year :: "string list \<Rightarrow> filter_spec \<Rightarrow> cell list \<Rightarrow> bool" where
  "ok_year cols sp r = in_range cols r ''Construction year'' (year_range sp)"

definition ok_nights :: "string list \<Rightarrow> filter_spec \<Rightarrow> cell list \<Rightarrow> bool" where
  "ok_nights cols sp r = in_range cols r ''minimum nights'' (min_nights sp)"

definition ok_base :: "string list \<Rightarrow> filter_spec \<Rightarrow> cell list \<Rightarrow> bool" where
  "ok_base cols sp r =
     (ok_ng cols sp r \<and> ok_rt cols sp r \<and> ok_co cols sp r \<and>
      ok_price cols sp r \<and> ok_year cols sp r \<and> ok_nights cols sp r)"

definition ok_ag :: "string list \<Rightarrow> filter_spec \<Rightarrow> cell list \<Rightarrow> bool" where
  "ok_ag cols sp r =
     (ag sp = Str ''All'' \<or> cell_eq (cell_of cols r ''availability_group'') (ag sp))"

definition ok_host :: "string list \<Rightarrow> filter_spec \<Rightarrow> cell list \<Rightarrow> bool" where
  "ok_host cols sp r =
     (host_type sp = ''All'' \<or>
      cell_eq (cell_of cols r ''host_is_big'')
        (if sublist ''Small'' (host_type sp) then Num 0 else Num 1))"

definition satisfies :: "string list \<Rightarrow> filter_spec \<Rightarrow> cell list \<Rightarrow> bool" where
  "satisfies cols sp r = (ok_base cols sp r \<and> ok_ag cols sp r \<and> ok_host cols sp r)"

text \<open>A cell on a bound of a range whose lower bound does not exceed the upper one.\<close>

definition at_bound :: "int \<times> int \<Rightarrow> cell \<Rightarrow> bool" where
  "at_bound rng c =
     (fst rng \<le> snd rng \<and> (c = Num (of_int (fst rng)) \<or> c = Num (of_int (snd rng))))"

definition always_filtered :: "string list" where
  "always_filtered =
     [''neighbourhood group'', ''room type'', ''country'',
      ''price'', ''Construction year'', ''minimum nights'']"

text \<open>
  A table of listing records: the six always-filtered columns are there, and the three
  numeric ones hold numbers or missing values only.
\<close>

definition numeric_column :: "dataframe \<Rightarrow> string \<Rightarrow> bool" where
  "numeric_column df name = (\<forall>r\<in>set (rows df). \<not> is_str (cell_of (columns df) r name))"

definition schema_ok :: "dataframe \<Rightarrow> bool" where
  "schema_ok df =
     (''neighbourhood group'' \<in> set (columns df) \<and>
      ''room type'' \<in> set (columns df) \<and>
      ''country'' \<in> set (columns df) \<and>
      ''price'' \<in> set (columns df) \<and>
      ''Construction year'' \<in> set (columns df) \<and>
      ''minimum nights'' \<in> set (columns df) \<and>
      numeric_column df ''price'' \<and>
      numeric_column df ''Construction year'' \<and>
      numeric_column df ''minimum nights'')"

text \<open>
  What lines 60 to 74 guarantee about the two optional choices: a choice other than the
  sentinel is only ever made when its column exists.
\<close>

definition optional_ok :: "dataframe \<Rightarrow> filter_spec \<Rightarrow> bool" where
  "optional_ok df sp =
     ((ag sp = Str ''All'' \<or> ''availability_group'' \<in> set (columns df)) \<and>
      (host_type sp = ''All'' \<or> ''host_is_big'' \<in> set (columns df)))"

section \<open>The sidebar\<close>

text \<open>\<^verbatim>\<open>Series.dropna()\<close> and \<^verbatim>\<open>Series.unique()\<close> (first occurrences, in order).\<close>

definition dropna :: "cell list \<Rightarrow> cell list" where
  "dropna s = filter (\<lambda>c. c \<noteq> NaN) s"

fun unique_from :: "'a list \<Rightarrow> 'a list \<Rightarrow> 'a list" where
  "unique_from seen [] = []"
| "unique_from seen (x # xs) =
     (if x \<in> set seen then unique_from seen xs else x # unique_from (x # seen) xs)"

definition unique :: "'a list \<Rightarrow> 'a list" where
  "unique xs = unique_from [] xs"

text \<open>
  Lines 41 to 57: the options, and the default, of a multiselect are
  \<^verbatim>\<open>df[name].dropna().unique().tolist()\<close>.
\<close>

definition multiselect_options :: "dataframe \<Rightarrow> string \<Rightarrow> error + cell list" where
  "multiselect_options df name = bindE (getitem df name) (\<lambda>s. Inr (unique (dropna s)))"

text \<open>
  A multiselect returns some of its options. The widget is the library's; this is its
  contract, for the three multiselects of the sidebar.
\<close>

definition drawn_from_options :: "dataframe \<Rightarrow> filter_spec \<Rightarrow> bool" where
  "drawn_from_options df sp =
     (case (multiselect_options df ''neighbourhood group'',
            multiselect_options df ''room type'',
            multiselect_options df ''country'') of
        (Inr o1, Inr o2, Inr o3) \<Rightarrow>
          set (ng sp) \<subseteq> set o1 \<and> set (rt sp) \<subseteq> set o2 \<and> set (co sp) \<subseteq> set o3
      | _ \<Rightarrow> False)"

text \<open>
  Lines 60 to 74. The argument \<open>choice\<close> is what the selectbox returns; without the
  column no selectbox is shown and the variable is the sentinel.
\<close>

definition sidebar_ag :: "dataframe \<Rightarrow> cell \<Rightarrow> cell" where
  "sidebar_ag df choice =
     (if ''availability_group'' \<in> set (columns df) then choice else Str ''All'')"

definition sidebar_host :: "dataframe \<Rightarrow> string \<Rightarrow> string" where
  "sidebar_host df choice =
     (if ''host_is_big'' \<in> set (columns df) then choice else ''All'')"

text \<open>The three options of the host selectbox; the sign in the labels is U+2264 in UTF-8.\<close>

definition small_hosts_label :: string where
  "small_hosts_label = ''Small Hosts ('' @ [CHR 0xE2, CHR 0x89, CHR 0xA4] @ ''3 listings)''"

definition big_hosts_label :: string where
  "big_hosts_label = ''Big Hosts (>3 listings)''"

section \<open>The script's variables and objects\<close>

text \<open>
  The objects the script creates live in a store; a variable holds the address of its
  object. \<^verbatim>\<open>df.copy()\<close> and \<^verbatim>\<open>filtered[mask]\<close> each create a new object, and
  \<^verbatim>\<open>filtered = ...\<close> rebinds the variable to it.
\<close>

record pystate =
  objects :: "dataframe list"
  var_df :: "nat option"
  var_filtered :: "nat option"
  session_df :: "nat option"

definition deref :: "pystate \<Rightarrow> nat option \<Rightarrow> error + dataframe" where
  "deref st v =
     (case v of
        None \<Rightarrow> Inl NameError
      | Some a \<Rightarrow> if a < length (objects st) then Inr (objects st ! a) else Inl NameError)"

definition bind_filtered :: "dataframe \<Rightarrow> pystate \<Rightarrow> pystate" where
  "bind_filtered obj st =
     st\<lparr>objects := objects st @ [obj], var_filtered := Some (length (objects st))\<rparr>"

text \<open>\<^verbatim>\<open>filtered = f(filtered)\<close> for an \<open>f\<close> that builds a new frame.\<close>

definition filter_step :: "(dataframe \<Rightarrow> error + dataframe) \<Rightarrow> pystate \<Rightarrow> error + pystate" where
  "filter_step f st =
     bindE (deref st (var_filtered st)) (\<lambda>obj.
     bindE (f obj) (\<lambda>new. Inr (bind_filtered new st)))"

text \<open>
  A later store extends an earlier one when every object of the earlier one is still at
  its address, unchanged, and \<^verbatim>\<open>df\<close> is bound as before.
\<close>

definition store_extends :: "pystate \<Rightarrow> pystate \<Rightarrow> bool" where
  "store_extends st s =
     (var_df s = var_df st \<and> length (objects st) \<le> length (objects s) \<and>
      take (length (objects st)) (objects s) = objects st)"

text \<open>Lines 89 to 112 on the store.\<close>

definition run_filters :: "filter_spec \<Rightarrow> pystate \<Rightarrow> error + pystate" where
  "run_filters sp st =
     bindE (deref st (var_df st)) (\<lambda>df.
     bindE (filter_step (\<lambda>f. base_filter f sp) (bind_filtered df st)) (\<lambda>s1.
     bindE (if ag sp \<noteq> Str ''All''
            then filter_step (\<lambda>f. eq_filter f ''availability_group'' (ag sp)) s1
            else Inr s1) (\<lambda>s2.
     bindE (if host_type sp \<noteq> ''All''
            then (if sublist ''Small'' (host_type sp)
                  then filter_step (\<lambda>f. eq_filter f ''host_is_big'' (Num 0)) s2
                  else filter_step (\<lambda>f. eq_filter f ''host_is_big'' (Num 1)) s2)
            else Inr s2) (\<lambda>s3.
       Inr (s3\<lparr>session_df := var_filtered s3\<rparr>)))))"

section \<open>Grouped aggregates of the pages\<close>










section \<open>The data loader\<close>

text \<open>
  A file is a CSV, given by the table \<^verbatim>\<open>read_csv\<close> parses it to, a zip archive with its
  members, or something else. The working directory maps names to files. The cache that
  \<^verbatim>\<open>st.cache_data\<close> puts around the loader is not modelled.
\<close>

datatype fsfile = CsvFile dataframe | ZipArchive "(string \<times> fsfile) list" | OtherFile

type_synonym filesystem = "string \<rightharpoonup> fsfile"

definition csv_path :: string where
  "csv_path = ''Airbnb_Open_Data_Final_features.csv''"

definition zip_path :: string where
  "zip_path = ''Airbnb_Open_Data_Final_features.csv.zip''"

definition extractall :: "(string \<times> fsfile) list \<Rightarrow> filesystem \<Rightarrow> filesystem" where
  "extractall members fs = fold (\<lambda>m acc. acc(fst m \<mapsto> snd m)) members fs"

text \<open>Lines 26 to 28: when the archive exists it is unpacked into the directory.\<close>

definition unpack_archive :: "filesystem \<Rightarrow> error + filesystem" where
  "unpack_archive fs =
     (case fs zip_path of
        None \<Rightarrow> Inr fs
      | Some (ZipArchive members) \<Rightarrow> Inr (extractall members fs)
      | Some _ \<Rightarrow> Inl BadZipFile)"

definition read_csv :: "filesystem \<Rightarrow> string \<Rightarrow> error + dataframe" where
  "read_csv fs path =
     (case fs path of
        None \<Rightarrow> Inl FileNotFoundError
      | Some (CsvFile t) \<Rightarrow> Inr t
      | Some _ \<Rightarrow> Inl ParserError)"

text \<open>
  Line 30: \<^verbatim>\<open>df.loc[:, ~df.columns.str.contains("^Unnamed")]\<close>. The pattern is anchored,
  so it matches the names that begin with "Unnamed".
\<close>

definition drop_unnamed :: "dataframe \<Rightarrow> dataframe" where
  "drop_unnamed df =
     (let keep = map (\<lambda>c. \<not> prefix ''Unnamed'' c) (columns df)
      in \<lparr>columns = compress keep (columns df), rows = map (compress keep) (rows df)\<rparr>)"

definition load_data :: "filesystem \<Rightarrow> error + dataframe" where
  "load_data fs =
     bindE (unpack_archive fs) (\<lambda>fs1.
     bindE (read_csv fs1 csv_path) (\<lambda>df.
       Inr (drop_unnamed df)))"

section \<open>Example tables\<close>

definition example_table :: dataframe where
  "example_table =
     \<lparr>columns = [''neighbourhood group'', ''room type'', ''country'',
                 ''price'', ''Construction year'', ''minimum nights''],
      rows = [[Str ''Brooklyn'', Str ''Entire home'', Str ''US'', Num 50, Num 2010, Num 2],
              [Str ''Brooklyn'', Str ''Private room'', Str ''US'', Num 50, Num 2012, Num 1],
              [Str ''Queens'', Str ''Entire home'', Str ''US'', Num 60, Num 2015, Num 3],
              [Str ''Queens'', Str ''Entire home'', Str ''US'', NaN, Num 2015, Num 3]]\<rparr>"

definition example_spec :: filter_spec where
  "example_spec =
     \<lparr>ng = [Str ''Brooklyn'', Str ''Queens''], rt = [Str ''Entire home''], co = [Str ''US''],
      ag = Str ''All'', host_type = ''All'',
      price_range = (50, 50), year_range = (2003, 2022), min_nights = (1, 30)\<rparr>"

text \<open>The default selection on the example: every option, the full ranges.\<close>

definition default_spec :: filter_spec where
  "default_spec =
     \<lparr>ng = [Str ''Brooklyn'', Str ''Queens''], rt = [Str ''Entire home'', Str ''Private room''],
      co = [Str ''US''], ag = Str ''All'', host_type = ''All'',
      price_range = (50, 60), year_range = (2010, 2015), min_nights = (1, 3)\<rparr>"

definition host_table :: dataframe where
  "host_table =
     \<lparr>columns = [''neighbourhood group'', ''room type'', ''country'', ''price'',
                 ''Construction year'', ''minimum nights'', ''availability_group'',
                 ''host_is_big''],
      rows = [[Str ''Brooklyn'', Str ''Entire home'', Str ''US'', Num 50, Num 2010, Num 2,
               Str ''Low'', Num 0],
              [Str ''Queens'', Str ''Entire home'', Str ''US'', Num 80, Num 2014, Num 5,
               Str ''High'', Num 0]]\<rparr>"

definition host_spec :: filter_spec where
  "host_spec =
     \<lparr>ng = [Str ''Brooklyn'', Str ''Queens''], rt = [Str ''Entire home''], co = [Str ''US''],
      ag = Str ''Low'', host_type = small_hosts_label,
      price_range = (50, 80), year_range = (2010, 2014), min_nights = (2, 5)\<rparr>"

text \<open>What the pipeline returns for \<open>host_spec\<close> on \<open>host_table\<close>.\<close>

definition host_result :: dataframe where
  "host_result =
     \<lparr>columns = [''neighbourhood group'', ''room type'', ''country'', ''price'',
                 ''Construction year'', ''minimum nights'', ''availability_group'',
                 ''host_is_big''],
      rows = [[Str ''Brooklyn'', Str ''Entire home'', Str ''US'', Num 50, Num 2010, Num 2,
               Str ''Low'', Num 0]]\<rparr>"

text \<open>A CSV as it is read, with the index column a saved frame brings along.\<close>

definition raw_table :: dataframe where
  "raw_table =
     \<lparr>columns = [''Unnamed: 0'', ''price'', ''room type''],
      rows = [[Num 0, Num 50, Str ''Entire home''], [Num 1, Num 60, Str ''Private room'']]\<rparr>"

definition loaded_table :: dataframe where
  "loaded_table =
     \<lparr>columns = [''price'', ''room type''],
      rows = [[Num 50, Str ''Entire home''], [Num 60, Str ''Private room'']]\<rparr>"

text \<open>A directory that holds only the archive, and the archive only the CSV.\<close>

definition archive_fs :: filesystem where
  "archive_fs = [zip_path \<mapsto> ZipArchive [(csv_path, CsvFile raw_table)]]"

text \<open>What the pipeline returns for \<open>default_spec\<close> on \<open>example_table\<close>.\<close>

definition default_result :: dataframe where
  "default_result =
     \<lparr>columns = [''neighbourhood group'', ''room type'', ''country'',
                 ''price'', ''Construction year'', ''minimum nights''],
      rows = [[Str ''Brooklyn'', Str ''Entire home'', Str ''US'', Num 50, Num 2010, Num 2],
              [Str ''Brooklyn'', Str ''Private room'', Str ''US'', Num 50, Num 2012, Num 1],
              [Str ''Queens'', Str ''Entire home'', Str ''US'', Num 60, Num 2015, Num 3]]\<rparr>"

text \<open>What the pipeline returns for \<open>example_spec\<close> on \<open>example_table\<close>.\<close>

definition example_result :: dataframe where
  "example_result =
     \<lparr>columns = [''neighbourhood group'', ''room type'', ''country'',
                 ''price'', ''Construction year'', ''minimum nights''],
      rows = [[Str ''Brooklyn'', Str ''Entire home'', Str ''US'', Num 50, Num 2010, Num 2]]\<rparr>"

text \<open>The store before line 89, and after line 112 when the selection is \<open>example_spec\<close>.\<close>

definition example_final :: pystate where
  "example_final =
     \<lparr>objects = [example_table, example_table, example_result],
      var_df = Some 0, var_filtered = Some 2, session_df = Some 2\<rparr>"

definition example_state :: pystate where
  "example_state =
     \<lparr>objects = [example_table], var_df = Some 0, var_filtered = None, session_df = None\<rparr>"

section \<open>Basic facts\<close>

lemma bindE_Inl [simp]: "bindE (Inl e) f = Inl e"
  by (simp add: bindE_def)

lemma bindE_Inr [simp]: "bindE (Inr v) f = f v"
  by (simp add: bindE_def)

lemma bindE_eq_Inr: "bindE m f = Inr y \<longleftrightarrow> (\<exists>v. m = Inr v \<and> f v = Inr y)"
  by (cases m) simp_all

lemma compress_map: "compress (map P xs) xs = filter P xs"
  by (induction xs) (simp_all add: compress_def)

lemma mask_and_map: "mask_and (map P xs) (map Q xs) = map (\<lambda>x. P x \<and> Q x) xs"
  by (induction xs) (simp_all add: mask_and_def)

lemma isin_map: "isin (map f xs) vals = map (\<lambda>x. f x \<in> set vals) xs"
  by (simp add: isin_def comp_def)

lemma series_eq_map: "series_eq (map f xs) v = map (\<lambda>x. cell_eq (f x) v) xs"
  by (simp add: series_eq_def comp_def)

lemma series_cmp_map:
  "series_cmp p (map f xs) =
     (if \<exists>x\<in>set xs. is_str (f x) then Inl TypeError
      else Inr (map (\<lambda>x. num_test p (f x)) xs))"
  by (simp add: series_cmp_def comp_def)

lemma in_range_num_test:
  "in_range cols r name rng =
     (num_test (\<lambda>v. of_int (fst rng) \<le> v) (cell_of cols r name) \<and>
      num_test (\<lambda>v. v \<le> of_int (snd rng)) (cell_of cols r name))"
  by (cases "cell_of cols r name") (simp_all add: in_range_def)

section \<open>The pipeline computes the specified subset\<close>

text \<open>
  On a table of listing records the nine masks combine to the row predicate of the
  specification, and the selection is the list filter by it.
\<close>

lemma base_filter_ok:
  assumes "schema_ok df"
  shows "base_filter df sp =
           Inr \<lparr>columns = columns df, rows = filter (ok_base (columns df) sp) (rows df)\<rparr>"
proof -
  have "base_filter df sp = select_rows df (map (ok_base (columns df) sp) (rows df))"
    using assms
    unfolding base_filter_def schema_ok_def numeric_column_def getitem_def
      series_ge_def series_le_def
    by (simp add: series_cmp_map isin_map mask_and_map ok_base_def[abs_def] ok_ng_def ok_rt_def
        ok_co_def ok_price_def ok_year_def ok_nights_def in_set_def in_range_num_test conj_ac)
  then show ?thesis
    by (simp add: select_rows_def compress_map)
qed

text \<open>Conversely the first selection only succeeds on such a table.\<close>

lemma base_filter_Inr_schema:
  assumes "base_filter df sp = Inr out"
  shows "schema_ok df"
  using assms
  unfolding base_filter_def schema_ok_def numeric_column_def getitem_def
    series_ge_def series_le_def
  by (auto simp: series_cmp_map bindE_eq_Inr split: if_splits)

lemma eq_filter_ok:
  "name \<in> set (columns f) \<Longrightarrow>
   eq_filter f name v =
     Inr \<lparr>columns = columns f,
          rows = filter (\<lambda>r. cell_eq (cell_of (columns f) r name) v) (rows f)\<rparr>"
  by (simp add: eq_filter_def getitem_def series_eq_map select_rows_def compress_map)

lemma eq_filter_missing:
  "name \<notin> set (columns f) \<Longrightarrow> eq_filter f name v = Inl (KeyError name)"
  by (simp add: eq_filter_def getitem_def)

lemma eq_filter_Inr_col:
  "eq_filter f name v = Inr out \<Longrightarrow> name \<in> set (columns f)"
  by (cases "name \<in> set (columns f)") (simp_all add: eq_filter_missing)

lemma ag_filter_ok:
  assumes "ag sp = Str ''All'' \<or> ''availability_group'' \<in> set (columns f)"
  shows "ag_filter (ag sp) f =
           Inr \<lparr>columns = columns f, rows = filter (ok_ag (columns f) sp) (rows f)\<rparr>"
  using assms by (auto simp: ag_filter_def eq_filter_ok ok_ag_def[abs_def])

lemma host_filter_ok:
  assumes "host_type sp = ''All'' \<or> ''host_is_big'' \<in> set (columns f)"
  shows "host_filter (host_type sp) f =
           Inr \<lparr>columns = columns f, rows = filter (ok_host (columns f) sp) (rows f)\<rparr>"
  using assms by (auto simp: host_filter_def eq_filter_ok ok_host_def[abs_def])

lemma apply_filters_ok:
  assumes "schema_ok df" and "optional_ok df sp"
  shows "apply_filters df sp =
           Inr \<lparr>columns = columns df, rows = filter (satisfies (columns df) sp) (rows df)\<rparr>"
  using assms
  by (simp add: apply_filters_def base_filter_ok ag_filter_ok host_filter_ok optional_ok_def
      satisfies_def[abs_def] conj_ac)

lemma apply_filters_Inr:
  assumes "apply_filters df sp = Inr out"
  shows "schema_ok df \<and> optional_ok df sp"
proof -
  from assms obtain f1 f2 where b: "base_filter df sp = Inr f1"
    and a: "ag_filter (ag sp) f1 = Inr f2" and h: "host_filter (host_type sp) f2 = Inr out"
    by (auto simp: apply_filters_def bindE_eq_Inr)
  have s: "schema_ok df" using b by (rule base_filter_Inr_schema)
  have c1: "columns f1 = columns df" using b by (auto simp: base_filter_ok [OF s])
  have a1: "ag sp = Str ''All'' \<or> ''availability_group'' \<in> set (columns df)"
    using a c1 by (auto simp: ag_filter_def split: if_splits dest: eq_filter_Inr_col)
  have c2: "columns f2 = columns df"
    using a a1 c1 by (auto simp: ag_filter_def eq_filter_ok split: if_splits)
  have h1: "host_type sp = ''All'' \<or> ''host_is_big'' \<in> set (columns df)"
    using h c2 by (auto simp: host_filter_def split: if_splits dest: eq_filter_Inr_col)
  show ?thesis using s a1 h1 by (simp add: optional_ok_def)
qed

text \<open>The runs of the pipeline that return, and what they return.\<close>

lemma apply_filters_char:
  "apply_filters df sp = Inr out \<longleftrightarrow>
     schema_ok df \<and> optional_ok df sp \<and>
     out = \<lparr>columns = columns df, rows = filter (satisfies (columns df) sp) (rows df)\<rparr>"
  using apply_filters_ok apply_filters_Inr by (metis sum.inject(2))

lemma schema_ok_filter:
  "schema_ok df \<Longrightarrow> schema_ok \<lparr>columns = columns df, rows = filter P (rows df)\<rparr>"
  by (simp add: schema_ok_def numeric_column_def)

section \<open>The examples, evaluated\<close>

lemma example_schema: "schema_ok example_table"
  by (simp add: example_table_def schema_ok_def numeric_column_def cell_of_def)

lemma example_optional: "optional_ok example_table example_spec"
  by (simp add: example_spec_def optional_ok_def)

lemma example_base: "base_filter example_table example_spec = Inr example_result"
  by (simp add: base_filter_ok [OF example_schema])
     (simp add: example_table_def example_result_def example_spec_def ok_base_def ok_ng_def
        ok_rt_def ok_co_def ok_price_def ok_year_def ok_nights_def in_set_def in_range_def
        cell_of_def)

lemma example_filtered: "apply_filters example_table example_spec = Inr example_result"
  by (simp add: apply_filters_def example_base ag_filter_def host_filter_def)
     (simp add: example_spec_def)

lemma example_run: "run_filters example_spec example_state = Inr example_final"
proof -
  have a: "ag example_spec = Str ''All''" "host_type example_spec = ''All''"
    by (simp_all add: example_spec_def)
  show ?thesis
    by (simp add: run_filters_def example_state_def example_final_def deref_def
        bind_filtered_def filter_step_def example_base a)
qed

lemma host_schema: "schema_ok host_table"
  by (simp add: host_table_def schema_ok_def numeric_column_def cell_of_def)

lemma host_optional: "optional_ok host_table host_spec"
  by (simp add: host_table_def optional_ok_def)

lemma small_label: "sublist ''Small'' small_hosts_label" "small_hosts_label \<noteq> ''All''"
  by (simp_all add: small_hosts_label_def sublist_Cons_right)

lemma host_filtered: "apply_filters host_table host_spec = Inr host_result"
  by (simp add: apply_filters_ok [OF host_schema host_optional])
     (simp add: host_table_def host_result_def host_spec_def satisfies_def ok_base_def ok_ng_def
        ok_rt_def ok_co_def ok_price_def ok_year_def ok_nights_def ok_ag_def ok_host_def
        in_set_def in_range_def cell_of_def cell_eq_def small_label)

text \<open>The branches that raise: a column that is not there, a string in a numeric column.\<close>

lemma missing_column_raises:
  "base_filter \<lparr>columns = [''price''], rows = [[Num 50]]\<rparr> sp =
     Inl (KeyError ''neighbourhood group'')"
  by (simp add: base_filter_def getitem_def)

lemma string_price_raises:
  "base_filter (example_table\<lparr>rows := [[Str ''Brooklyn'', Str ''Entire home'', Str ''US'',
       Str ''fifty'', Num 2010, Num 2]]\<rparr>) sp = Inl TypeError"
  by (simp add: base_filter_def getitem_def example_table_def cell_of_def series_ge_def
      series_cmp_def)

lemma big_label: "\<not> sublist ''Small'' big_hosts_label" "big_hosts_label \<noteq> ''All''"
  by (simp_all add: big_hosts_label_def sublist_Cons_right)

section \<open>Claims about the filter pipeline\<close>

text \<open>
  C1. On every table of listing records and for every filter specification whose optional
  choices the sidebar can produce, the pipeline returns the table of exactly those rows of
  the source that satisfy the conjunction of all constraints, the source's rows filtered
  by it; each multiselect constraint is membership of the row's value in the permitted set.
\<close>

theorem filter_exact:
  assumes "schema_ok df" and "optional_ok df sp"
  shows "\<exists>out. apply_filters df sp = Inr out \<and> columns out = columns df \<and>
           rows out = filter (satisfies (columns df) sp) (rows df) \<and>
           (\<forall>r. r \<in> set (rows out) \<longleftrightarrow> r \<in> set (rows df) \<and> satisfies (columns df) sp r)"
  using assms by (simp add: apply_filters_ok)

theorem filter_exact_witness:
  "schema_ok host_table \<and> optional_ok host_table host_spec \<and>
   apply_filters host_table host_spec = Inr host_result \<and>
   rows host_result = filter (satisfies (columns host_table) host_spec) (rows host_table)"
proof -
  from filter_exact [OF host_schema host_optional] obtain out
    where o: "apply_filters host_table host_spec = Inr out"
      and r: "rows out = filter (satisfies (columns host_table) host_spec) (rows host_table)"
    by blast
  from o have "out = host_result"
    by (simp add: host_filtered)
  with o r host_schema host_optional show ?thesis
    by simp
qed

text \<open>
  C3. When the selected set of neighbourhood groups, of room types or of countries is
  empty, the pipeline returns a table with no rows, whatever the other settings are.
\<close>

theorem empty_selection_no_rows:
  assumes "schema_ok df" and "optional_ok df sp"
    and "ng sp = [] \<or> rt sp = [] \<or> co sp = []"
  shows "apply_filters df sp = Inr \<lparr>columns = columns df, rows = []\<rparr>"
proof -
  have "\<not> satisfies (columns df) sp r" for r
    using assms(3)
    by (auto simp: satisfies_def ok_base_def ok_ng_def ok_rt_def ok_co_def in_set_def)
  then have "filter (satisfies (columns df) sp) (rows df) = []"
    by simp
  then show ?thesis
    using assms(1,2) by (simp add: apply_filters_ok)
qed

theorem empty_selection_no_rows_witness:
  "apply_filters example_table (example_spec\<lparr>rt := []\<rparr>) =
     Inr \<lparr>columns = columns example_table, rows = []\<rparr>"
proof -
  have o: "optional_ok example_table (example_spec\<lparr>rt := []\<rparr>)"
    by (simp add: example_spec_def optional_ok_def)
  have e: "ng (example_spec\<lparr>rt := []\<rparr>) = [] \<or> rt (example_spec\<lparr>rt := []\<rparr>) = [] \<or>
           co (example_spec\<lparr>rt := []\<rparr>) = []"
    by simp
  show ?thesis
    by (rule empty_selection_no_rows [OF example_schema o e])
qed

text \<open>
  C4. The filtered table never has more rows than the source table.
\<close>

theorem row_count_bounded:
  assumes "apply_filters df sp = Inr out"
  shows "length (rows out) \<le> length (rows df)"
  using assms by (auto simp: apply_filters_char)

theorem row_count_bounded_witness:
  "apply_filters example_table example_spec = Inr example_result \<and>
   length (rows example_result) \<le> length (rows example_table)"
  using example_filtered row_count_bounded [OF example_filtered] by simp

text \<open>
  C5. Filtering is idempotent: the pipeline applied, with the same specification, to a
  table it returned returns that table again.
\<close>

theorem filter_idempotent:
  assumes "apply_filters df sp = Inr out"
  shows "apply_filters out sp = Inr out"
proof -
  from assms have s: "schema_ok df" and o: "optional_ok df sp"
    and out: "out = \<lparr>columns = columns df, rows = filter (satisfies (columns df) sp) (rows df)\<rparr>"
    by (simp_all add: apply_filters_char)
  have s': "schema_ok out" unfolding out using s by (rule schema_ok_filter)
  have o': "optional_ok out sp" using o by (simp add: out optional_ok_def)
  show ?thesis
    by (simp add: apply_filters_ok [OF s' o']) (simp add: out)
qed

theorem filter_idempotent_witness:
  "apply_filters example_table example_spec = Inr example_result \<and>
   apply_filters example_result example_spec = Inr example_result"
  using example_filtered filter_idempotent [OF example_filtered] by simp

section \<open>The pipeline on the store\<close>

lemma store_extends_refl: "store_extends st st"
  by (simp add: store_extends_def)

lemma store_extends_trans:
  assumes "store_extends a b" and "store_extends b c"
  shows "store_extends a c"
proof -
  from assms have v: "var_df c = var_df a"
    and l1: "length (objects a) \<le> length (objects b)"
    and l2: "length (objects b) \<le> length (objects c)"
    and t1: "take (length (objects a)) (objects b) = objects a"
    and t2: "take (length (objects b)) (objects c) = objects b"
    by (simp_all add: store_extends_def)
  have "take (length (objects a)) (objects c) =
        take (length (objects a)) (take (length (objects b)) (objects c))"
    using l1 by (simp add: min_def)
  also have "\<dots> = objects a"
    by (simp only: t2 t1)
  finally show ?thesis
    using v l1 l2 by (simp add: store_extends_def)
qed

lemma store_extends_bind: "store_extends s (bind_filtered new s)"
  by (simp add: store_extends_def bind_filtered_def)

lemma deref_bind_filtered:
  "deref (bind_filtered new s) (var_filtered (bind_filtered new s)) = Inr new"
  by (simp add: deref_def bind_filtered_def)

lemma deref_session: "deref (s\<lparr>session_df := x\<rparr>) v = deref s v"
  by (cases v) (simp_all add: deref_def)

lemma filter_step_Inr:
  assumes "filter_step f s = Inr s'" and "deref s (var_filtered s) = Inr obj"
  shows "\<exists>new. f obj = Inr new \<and> deref s' (var_filtered s') = Inr new \<and> store_extends s s'"
  using assms
  by (auto simp: filter_step_def bindE_eq_Inr deref_bind_filtered store_extends_bind)

lemma store_extends_deref:
  assumes "store_extends st s" and "deref st v = Inr obj"
  shows "deref s v = Inr obj"
proof (cases v)
  case None
  with assms show ?thesis by (simp add: deref_def)
next
  case (Some a)
  with assms(2) have a: "a < length (objects st)" and o: "objects st ! a = obj"
    by (auto simp: deref_def split: if_splits)
  from assms(1) have "take (length (objects st)) (objects s) = objects st"
    and l: "length (objects st) \<le> length (objects s)"
    by (simp_all add: store_extends_def)
  then have "objects s ! a = objects st ! a"
    using a by (metis nth_take)
  then show ?thesis
    using Some a l o by (simp add: deref_def)
qed

lemma run_filters_Inr:
  assumes "run_filters sp st = Inr st'"
  shows "\<exists>df out. deref st (var_df st) = Inr df \<and> apply_filters df sp = Inr out \<and>
           deref st' (var_filtered st') = Inr out \<and> session_df st' = var_filtered st' \<and>
           store_extends st st'"
proof -
  from assms obtain df s1 s2 s3 where d: "deref st (var_df st) = Inr df"
    and 1: "filter_step (\<lambda>f. base_filter f sp) (bind_filtered df st) = Inr s1"
    and 2: "(if ag sp \<noteq> Str ''All''
            then filter_step (\<lambda>f. eq_filter f ''availability_group'' (ag sp)) s1
            else Inr s1) = Inr s2"
    and 3: "(if host_type sp \<noteq> ''All''
            then (if sublist ''Small'' (host_type sp)
                  then filter_step (\<lambda>f. eq_filter f ''host_is_big'' (Num 0)) s2
                  else filter_step (\<lambda>f. eq_filter f ''host_is_big'' (Num 1)) s2)
            else Inr s2) = Inr s3"
    and st': "st' = s3\<lparr>session_df := var_filtered s3\<rparr>"
    unfolding run_filters_def bindE_eq_Inr by auto
  from filter_step_Inr [OF 1 deref_bind_filtered]
  obtain f1 where b: "base_filter df sp = Inr f1" and d1: "deref s1 (var_filtered s1) = Inr f1"
    and e1: "store_extends (bind_filtered df st) s1"
    by auto
  have e01: "store_extends st s1"
    using store_extends_bind e1 by (rule store_extends_trans)
  have "\<exists>f2. ag_filter (ag sp) f1 = Inr f2 \<and> deref s2 (var_filtered s2) = Inr f2 \<and>
          store_extends s1 s2"
  proof (cases "ag sp \<noteq> Str ''All''")
    case True
    with 2 have "filter_step (\<lambda>f. eq_filter f ''availability_group'' (ag sp)) s1 = Inr s2"
      by simp
    from filter_step_Inr [OF this d1] show ?thesis
      using True by (simp add: ag_filter_def)
  next
    case False
    with 2 d1 show ?thesis
      by (simp add: ag_filter_def store_extends_refl)
  qed
  then obtain f2 where a: "ag_filter (ag sp) f1 = Inr f2"
    and d2: "deref s2 (var_filtered s2) = Inr f2" and e2: "store_extends s1 s2"
    by auto
  have "\<exists>f3. host_filter (host_type sp) f2 = Inr f3 \<and> deref s3 (var_filtered s3) = Inr f3 \<and>
          store_extends s2 s3"
  proof (cases "host_type sp \<noteq> ''All''")
    case True
    show ?thesis
    proof (cases "sublist ''Small'' (host_type sp)")
      case small: True
      with True 3 have "filter_step (\<lambda>f. eq_filter f ''host_is_big'' (Num 0)) s2 = Inr s3"
        by simp
      from filter_step_Inr [OF this d2] show ?thesis
        using True small by (simp add: host_filter_def)
    next
      case big: False
      with True 3 have "filter_step (\<lambda>f. eq_filter f ''host_is_big'' (Num 1)) s2 = Inr s3"
        by simp
      from filter_step_Inr [OF this d2] show ?thesis
        using True big by (simp add: host_filter_def)
    qed
  next
    case False
    with 3 d2 show ?thesis
      by (simp add: host_filter_def store_extends_refl)
  qed
  then obtain f3 where h: "host_filter (host_type sp) f2 = Inr f3"
    and d3: "deref s3 (var_filtered s3) = Inr f3" and e3: "store_extends s2 s3"
    by auto
  have ap: "apply_filters df sp = Inr f3"
    using b a h by (simp add: apply_filters_def)
  have e: "store_extends st s3"
    using e01 e2 e3 by (blast intro: store_extends_trans)
  have "deref st' (var_filtered st') = Inr f3"
    using d3 by (simp add: st' deref_session)
  moreover have "session_df st' = var_filtered st'"
    by (simp add: st')
  moreover have "store_extends st st'"
    using e by (simp add: st' store_extends_def)
  ultimately show ?thesis
    using d ap by blast
qed

lemma subseq_filter: "subseq (filter P xs) xs"
  by (induction xs) auto

text \<open>
  C6. Filtering is pure: a run of lines 89 to 112 leaves every object of the store as it
  was, the source table among them, and \<^verbatim>\<open>df\<close> bound to it; the table bound to
  \<^verbatim>\<open>filtered\<close> afterwards has the source's columns, and its rows are rows of the source
  in the source's order.
\<close>

theorem filtering_pure:
  assumes "run_filters sp st = Inr st'"
  shows "\<exists>df out. deref st (var_df st) = Inr df \<and> deref st' (var_df st') = Inr df \<and>
           take (length (objects st)) (objects st') = objects st \<and>
           deref st' (var_filtered st') = Inr out \<and> apply_filters df sp = Inr out \<and>
           columns out = columns df \<and> subseq (rows out) (rows df)"
proof -
  from run_filters_Inr [OF assms] obtain df out where d: "deref st (var_df st) = Inr df"
    and ap: "apply_filters df sp = Inr out" and f: "deref st' (var_filtered st') = Inr out"
    and e: "store_extends st st'"
    by blast
  have "deref st' (var_df st) = Inr df"
    using e d by (rule store_extends_deref)
  then have d': "deref st' (var_df st') = Inr df"
    using e by (simp add: store_extends_def)
  have t: "take (length (objects st)) (objects st') = objects st"
    using e by (simp add: store_extends_def)
  have "columns out = columns df" and "subseq (rows out) (rows df)"
    using ap by (simp_all add: apply_filters_char subseq_filter)
  with d d' t f ap show ?thesis by blast
qed

theorem filtering_pure_witness:
  "\<exists>df out. deref example_state (var_df example_state) = Inr df \<and>
     deref example_final (var_df example_final) = Inr df \<and>
     take (length (objects example_state)) (objects example_final) = objects example_state \<and>
     deref example_final (var_filtered example_final) = Inr out \<and>
     apply_filters df example_spec = Inr out \<and>
     columns out = columns df \<and> subseq (rows out) (rows df)"
  by (rule filtering_pure [OF example_run])

section \<open>Inclusive ranges\<close>

lemma at_bound_in_range:
  "at_bound rng (cell_of cols r name) \<Longrightarrow> in_range cols r name rng"
  by (auto simp: at_bound_def in_range_def)

text \<open>
  C2. The price, construction-year and minimum-nights ranges are inclusive on both bounds:
  a row whose value equals the lower or the upper bound of the selected range passes that
  range test, and is kept when it meets the other constraints. No returned row fails the
  price range or the room-type set. On the example, the price range (50, 50) with the
  room-type set {"Entire home"} keeps the row with price 50 and room type "Entire home"
  and drops the row with the other room type and the row with the other price.
\<close>

theorem range_filters_inclusive:
  assumes "apply_filters df sp = Inr out" and "r \<in> set (rows df)"
  shows "(at_bound (price_range sp) (cell_of (columns df) r ''price'') \<and>
          ok_ng (columns df) sp r \<and> ok_rt (columns df) sp r \<and> ok_co (columns df) sp r \<and>
          ok_year (columns df) sp r \<and> ok_nights (columns df) sp r \<and>
          ok_ag (columns df) sp r \<and> ok_host (columns df) sp r
            \<longrightarrow> r \<in> set (rows out)) \<and>
         (at_bound (year_range sp) (cell_of (columns df) r ''Construction year'') \<and>
          ok_ng (columns df) sp r \<and> ok_rt (columns df) sp r \<and> ok_co (columns df) sp r \<and>
          ok_price (columns df) sp r \<and> ok_nights (columns df) sp r \<and>
          ok_ag (columns df) sp r \<and> ok_host (columns df) sp r
            \<longrightarrow> r \<in> set (rows out)) \<and>
         (at_bound (min_nights sp) (cell_of (columns df) r ''minimum nights'') \<and>
          ok_ng (columns df) sp r \<and> ok_rt (columns df) sp r \<and> ok_co (columns df) sp r \<and>
          ok_price (columns df) sp r \<and> ok_year (columns df) sp r \<and>
          ok_ag (columns df) sp r \<and> ok_host (columns df) sp r
            \<longrightarrow> r \<in> set (rows out)) \<and>
         (\<forall>r'\<in>set (rows out). ok_price (columns df) sp r' \<and> ok_rt (columns df) sp r')"
proof -
  from assms(1) have out: "rows out = filter (satisfies (columns df) sp) (rows df)"
    by (simp add: apply_filters_char)
  have p: "ok_price (columns df) sp r"
    if "at_bound (price_range sp) (cell_of (columns df) r ''price'')"
    using that by (simp add: ok_price_def at_bound_in_range)
  have y: "ok_year (columns df) sp r"
    if "at_bound (year_range sp) (cell_of (columns df) r ''Construction year'')"
    using that by (simp add: ok_year_def at_bound_in_range)
  have n: "ok_nights (columns df) sp r"
    if "at_bound (min_nights sp) (cell_of (columns df) r ''minimum nights'')"
    using that by (simp add: ok_nights_def at_bound_in_range)
  have 1: "r \<in> set (rows out)" if "satisfies (columns df) sp r"
    using that assms(2) by (simp add: out)
  have 2: "\<forall>r'\<in>set (rows out). ok_price (columns df) sp r' \<and> ok_rt (columns df) sp r'"
    by (simp add: out satisfies_def ok_base_def)
  show ?thesis
  proof (intro conjI impI)
    assume "at_bound (price_range sp) (cell_of (columns df) r ''price'') \<and>
          ok_ng (columns df) sp r \<and> ok_rt (columns df) sp r \<and> ok_co (columns df) sp r \<and>
          ok_year (columns df) sp r \<and> ok_nights (columns df) sp r \<and>
          ok_ag (columns df) sp r \<and> ok_host (columns df) sp r"
    then have "satisfies (columns df) sp r"
      using p by (simp add: satisfies_def ok_base_def)
    then show "r \<in> set (rows out)" by (rule 1)
  next
    assume "at_bound (year_range sp) (cell_of (columns df) r ''Construction year'') \<and>
          ok_ng (columns df) sp r \<and> ok_rt (columns df) sp r \<and> ok_co (columns df) sp r \<and>
          ok_price (columns df) sp r \<and> ok_nights (columns df) sp r \<and>
          ok_ag (columns df) sp r \<and> ok_host (columns df) sp r"
    then have "satisfies (columns df) sp r"
      using y by (simp add: satisfies_def ok_base_def)
    then show "r \<in> set (rows out)" by (rule 1)
  next
    assume "at_bound (min_nights sp) (cell_of (columns df) r ''minimum nights'') \<and>
          ok_ng (columns df) sp r \<and> ok_rt (columns df) sp r \<and> ok_co (columns df) sp r \<and>
          ok_price (columns df) sp r \<and> ok_year (columns df) sp r \<and>
          ok_ag (columns df) sp r \<and> ok_host (columns df) sp r"
    then have "satisfies (columns df) sp r"
      using n by (simp add: satisfies_def ok_base_def)
    then show "r \<in> set (rows out)" by (rule 1)
  next
    show "\<forall>r'\<in>set (rows out). ok_price (columns df) sp r' \<and> ok_rt (columns df) sp r'"
      by (rule 2)
  qed
qed

theorem range_filters_inclusive_witness:
  "apply_filters example_table example_spec = Inr example_result \<and>
   at_bound (price_range example_spec)
     (cell_of (columns example_table)
        [Str ''Brooklyn'', Str ''Entire home'', Str ''US'', Num 50, Num 2010, Num 2] ''price'') \<and>
   [Str ''Brooklyn'', Str ''Entire home'', Str ''US'', Num 50, Num 2010, Num 2]
     \<in> set (rows example_result) \<and>
   [Str ''Brooklyn'', Str ''Private room'', Str ''US'', Num 50, Num 2012, Num 1]
     \<notin> set (rows example_result) \<and>
   [Str ''Queens'', Str ''Entire home'', Str ''US'', Num 60, Num 2015, Num 3]
     \<notin> set (rows example_result)"
proof -
  have r: "[Str ''Brooklyn'', Str ''Entire home'', Str ''US'', Num 50, Num 2010, Num 2]
             \<in> set (rows example_table)"
    by (simp add: example_table_def)
  have b: "at_bound (price_range example_spec)
     (cell_of (columns example_table)
        [Str ''Brooklyn'', Str ''Entire home'', Str ''US'', Num 50, Num 2010, Num 2] ''price'')"
    by (simp add: example_table_def example_spec_def at_bound_def cell_of_def)
  have o: "ok_ng (columns example_table) example_spec
          [Str ''Brooklyn'', Str ''Entire home'', Str ''US'', Num 50, Num 2010, Num 2]"
    "ok_rt (columns example_table) example_spec
          [Str ''Brooklyn'', Str ''Entire home'', Str ''US'', Num 50, Num 2010, Num 2]"
    "ok_co (columns example_table) example_spec
          [Str ''Brooklyn'', Str ''Entire home'', Str ''US'', Num 50, Num 2010, Num 2]"
    "ok_year (columns example_table) example_spec
          [Str ''Brooklyn'', Str ''Entire home'', Str ''US'', Num 50, Num 2010, Num 2]"
    "ok_nights (columns example_table) example_spec
          [Str ''Brooklyn'', Str ''Entire home'', Str ''US'', Num 50, Num 2010, Num 2]"
    "ok_ag (columns example_table) example_spec
          [Str ''Brooklyn'', Str ''Entire home'', Str ''US'', Num 50, Num 2010, Num 2]"
    "ok_host (columns example_table) example_spec
          [Str ''Brooklyn'', Str ''Entire home'', Str ''US'', Num 50, Num 2010, Num 2]"
    by (simp_all add: example_table_def example_spec_def ok_ng_def ok_rt_def
        ok_co_def ok_year_def ok_nights_def ok_ag_def ok_host_def in_set_def
        in_range_def cell_of_def)
  note t = range_filters_inclusive [OF example_filtered r]
  have m: "[Str ''Brooklyn'', Str ''Entire home'', Str ''US'', Num 50, Num 2010, Num 2]
     \<in> set (rows example_result)"
    using t b o by blast
  have x: "[Str ''Brooklyn'', Str ''Private room'', Str ''US'', Num 50, Num 2012, Num 1]
     \<notin> set (rows example_result)"
    "[Str ''Queens'', Str ''Entire home'', Str ''US'', Num 60, Num 2015, Num 3]
     \<notin> set (rows example_result)"
    by (simp_all add: example_result_def)
  show ?thesis
    using example_filtered b m x by blast
qed

section \<open>The optional filters\<close>

lemma base_filter_ag_update: "base_filter df (sp\<lparr>ag := a\<rparr>) = base_filter df sp"
  by (simp add: base_filter_def)

lemma base_filter_host_update: "base_filter df (sp\<lparr>host_type := h\<rparr>) = base_filter df sp"
  by (simp add: base_filter_def)

lemma bindE_Inr_right: "bindE m Inr = m"
  by (cases m) simp_all

lemma ag_noop:
  assumes "''availability_group'' \<notin> set (columns df) \<or> a = Str ''All''"
  shows "sidebar_ag df a = Str ''All''"
  using assms by (auto simp: sidebar_ag_def)

lemma host_noop:
  assumes "''host_is_big'' \<notin> set (columns df) \<or> h = ''All''"
  shows "sidebar_host df h = ''All''"
  using assms by (auto simp: sidebar_host_def)

text \<open>
  C7. When the availability column is absent, or the choice is "All", the availability
  filter returns the table it is given and the pipeline is the one without it; likewise
  the host-size filter with its column and its choice. So the optional filters change the
  result only when their column exists and the choice differs from "All", and without
  the column they do not fail.
\<close>

theorem optional_filters_noop:
  "((''availability_group'' \<notin> set (columns df) \<or> a = Str ''All'') \<longrightarrow>
      ag_filter (sidebar_ag df a) f = Inr f \<and>
      apply_filters df (sp\<lparr>ag := sidebar_ag df a\<rparr>) =
        bindE (base_filter df sp) (host_filter (host_type sp))) \<and>
   ((''host_is_big'' \<notin> set (columns df) \<or> h = ''All'') \<longrightarrow>
      host_filter (sidebar_host df h) f = Inr f \<and>
      apply_filters df (sp\<lparr>host_type := sidebar_host df h\<rparr>) =
        bindE (base_filter df sp) (ag_filter (ag sp))) \<and>
   (apply_filters df (sp\<lparr>ag := sidebar_ag df a, host_type := sidebar_host df h\<rparr>)
      \<noteq> base_filter df sp \<longrightarrow>
    (''availability_group'' \<in> set (columns df) \<and> a \<noteq> Str ''All'') \<or>
    (''host_is_big'' \<in> set (columns df) \<and> h \<noteq> ''All''))"
proof (intro conjI impI)
  assume c: "''availability_group'' \<notin> set (columns df) \<or> a = Str ''All''"
  show "ag_filter (sidebar_ag df a) f = Inr f"
    by (simp add: ag_noop [OF c] ag_filter_def)
  show "apply_filters df (sp\<lparr>ag := sidebar_ag df a\<rparr>) =
        bindE (base_filter df sp) (host_filter (host_type sp))"
    by (simp add: ag_noop [OF c] apply_filters_def base_filter_ag_update ag_filter_def)
next
  assume c: "''host_is_big'' \<notin> set (columns df) \<or> h = ''All''"
  show "host_filter (sidebar_host df h) f = Inr f"
    by (simp add: host_noop [OF c] host_filter_def)
  have "apply_filters df (sp\<lparr>host_type := sidebar_host df h\<rparr>) =
        bindE (base_filter df sp) (\<lambda>f1. bindE (ag_filter (ag sp) f1) Inr)"
    by (simp add: host_noop [OF c] apply_filters_def base_filter_host_update
        host_filter_def[abs_def])
  then show "apply_filters df (sp\<lparr>host_type := sidebar_host df h\<rparr>) =
        bindE (base_filter df sp) (ag_filter (ag sp))"
    by (simp add: bindE_Inr_right)
next
  assume d: "apply_filters df (sp\<lparr>ag := sidebar_ag df a, host_type := sidebar_host df h\<rparr>)
      \<noteq> base_filter df sp"
  show "(''availability_group'' \<in> set (columns df) \<and> a \<noteq> Str ''All'') \<or>
    (''host_is_big'' \<in> set (columns df) \<and> h \<noteq> ''All'')"
  proof (rule ccontr)
    assume "\<not> ?thesis"
    then have ca: "''availability_group'' \<notin> set (columns df) \<or> a = Str ''All''"
      and ch: "''host_is_big'' \<notin> set (columns df) \<or> h = ''All''"
      by auto
    have "apply_filters df (sp\<lparr>ag := sidebar_ag df a, host_type := sidebar_host df h\<rparr>) =
          bindE (base_filter df sp) (\<lambda>f1. bindE (Inr f1) Inr)"
      by (simp add: ag_noop [OF ca] host_noop [OF ch] apply_filters_def base_filter_def
          ag_filter_def host_filter_def)
    then show False
      using d by (simp add: bindE_Inr_right)
  qed
qed

theorem optional_filters_noop_witness:
  "ag_filter (sidebar_ag example_table (Str ''Low'')) example_result = Inr example_result \<and>
   apply_filters example_table (example_spec\<lparr>ag := sidebar_ag example_table (Str ''Low'')\<rparr>) =
     Inr example_result \<and>
   host_filter (sidebar_host example_table small_hosts_label) example_result =
     Inr example_result \<and>
   apply_filters example_table
     (example_spec\<lparr>host_type := sidebar_host example_table small_hosts_label\<rparr>) =
     Inr example_result"
proof -
  have a: "''availability_group'' \<notin> set (columns example_table) \<or> Str ''Low'' = Str ''All''"
    by (simp add: example_table_def)
  have h: "''host_is_big'' \<notin> set (columns example_table) \<or> small_hosts_label = ''All''"
    by (simp add: example_table_def)
  have e: "host_type example_spec = ''All''" "ag example_spec = Str ''All''"
    by (simp_all add: example_spec_def)
  note t = optional_filters_noop [of example_table "Str ''Low''" example_result example_spec
      small_hosts_label]
  show ?thesis
    using t a h by (simp add: example_base e host_filter_def ag_filter_def)
qed

section \<open>Missing values\<close>

lemma set_unique_from: "set (unique_from seen xs) = set xs - set seen"
  by (induction seen xs rule: unique_from.induct) auto

lemma set_unique: "set (unique xs) = set xs"
  by (simp add: unique_def set_unique_from)

lemma multiselect_options_no_NaN:
  "multiselect_options df name = Inr opts \<Longrightarrow> NaN \<notin> set opts"
  by (auto simp: multiselect_options_def bindE_eq_Inr set_unique dropna_def)

lemma drawn_from_options_no_NaN:
  assumes "drawn_from_options df sp"
  shows "NaN \<notin> set (ng sp) \<and> NaN \<notin> set (rt sp) \<and> NaN \<notin> set (co sp)"
proof -
  from assms obtain o1 o2 o3
    where 1: "multiselect_options df ''neighbourhood group'' = Inr o1"
      and 2: "multiselect_options df ''room type'' = Inr o2"
      and 3: "multiselect_options df ''country'' = Inr o3"
      and s: "set (ng sp) \<subseteq> set o1" "set (rt sp) \<subseteq> set o2" "set (co sp) \<subseteq> set o3"
    by (auto simp: drawn_from_options_def split: sum.splits)
  from 1 2 3 have "NaN \<notin> set o1" "NaN \<notin> set o2" "NaN \<notin> set o3"
    by (simp_all add: multiselect_options_no_NaN)
  with s show ?thesis by blast
qed

lemma in_range_not_NaN: "in_range cols r name rng \<Longrightarrow> cell_of cols r name \<noteq> NaN"
  by (auto simp: in_range_def)

lemma default_optional: "optional_ok example_table default_spec"
  by (simp add: default_spec_def optional_ok_def)

lemma default_filtered:
  "apply_filters example_table default_spec =
     Inr default_result"
  by (simp add: apply_filters_ok [OF example_schema default_optional])
     (simp add: example_table_def default_result_def default_spec_def satisfies_def ok_base_def ok_ng_def ok_rt_def
        ok_co_def ok_price_def ok_year_def ok_nights_def ok_ag_def ok_host_def in_set_def
        in_range_def cell_of_def)

lemma default_options:
  "multiselect_options example_table ''neighbourhood group'' = Inr (ng default_spec)"
  "multiselect_options example_table ''room type'' = Inr (rt default_spec)"
  "multiselect_options example_table ''country'' = Inr (co default_spec)"
  by (simp_all add: multiselect_options_def getitem_def example_table_def default_spec_def
      cell_of_def dropna_def unique_def)

lemma default_drawn: "drawn_from_options example_table default_spec"
  by (simp add: drawn_from_options_def default_options)

text \<open>
  C10. Whatever the selection, the default one included, as long as the three multiselects
  return some of their options (which are built from the non-missing values of their
  columns): no returned row holds a missing value in any of the six always-filtered
  columns.
\<close>

theorem missing_values_excluded:
  assumes "apply_filters df sp = Inr out" and "drawn_from_options df sp"
  shows "\<forall>r\<in>set (rows out). \<forall>name\<in>set always_filtered. cell_of (columns out) r name \<noteq> NaN"
proof (intro ballI)
  fix r name
  assume r: "r \<in> set (rows out)" and n: "name \<in> set always_filtered"
  from assms(1) have c: "columns out = columns df"
    and "rows out = filter (satisfies (columns df) sp) (rows df)"
    by (simp_all add: apply_filters_char)
  with r have b: "ok_base (columns df) sp r"
    by (simp add: satisfies_def)
  from drawn_from_options_no_NaN [OF assms(2)]
  have k: "NaN \<notin> set (ng sp)" "NaN \<notin> set (rt sp)" "NaN \<notin> set (co sp)"
    by simp_all
  from b k have "cell_of (columns df) r ''neighbourhood group'' \<noteq> NaN"
    "cell_of (columns df) r ''room type'' \<noteq> NaN"
    "cell_of (columns df) r ''country'' \<noteq> NaN"
    by (auto simp: ok_base_def ok_ng_def ok_rt_def ok_co_def in_set_def)
  moreover from b have "cell_of (columns df) r ''price'' \<noteq> NaN"
    "cell_of (columns df) r ''Construction year'' \<noteq> NaN"
    "cell_of (columns df) r ''minimum nights'' \<noteq> NaN"
    by (auto simp: ok_base_def ok_price_def ok_year_def ok_nights_def dest: in_range_not_NaN)
  ultimately show "cell_of (columns out) r name \<noteq> NaN"
    using n c by (auto simp: always_filtered_def)
qed

theorem missing_values_excluded_witness:
  "drawn_from_options example_table default_spec \<and>
   apply_filters example_table default_spec = Inr default_result \<and>
   [Str ''Queens'', Str ''Entire home'', Str ''US'', NaN, Num 2015, Num 3]
     \<in> set (rows example_table) \<and>
   [Str ''Queens'', Str ''Entire home'', Str ''US'', NaN, Num 2015, Num 3]
     \<notin> set (rows default_result)"
proof -
  have r: "[Str ''Queens'', Str ''Entire home'', Str ''US'', NaN, Num 2015, Num 3]
     \<in> set (rows example_table)"
    by (simp add: example_table_def)
  have n: "cell_of (columns default_result)
     [Str ''Queens'', Str ''Entire home'', Str ''US'', NaN, Num 2015, Num 3] ''price'' = NaN"
    by (simp add: default_result_def cell_of_def)
  have p: "''price'' \<in> set always_filtered"
    by (simp add: always_filtered_def)
  from missing_values_excluded [OF default_filtered default_drawn] n p
  have "[Str ''Queens'', Str ''Entire home'', Str ''US'', NaN, Num 2015, Num 3]
     \<notin> set (rows default_result)"
    by blast
  with r default_drawn default_filtered show ?thesis
    by blast
qed

section \<open>Grouped aggregates\<close>




















section \<open>The data loader\<close>

lemma compress_Nil [simp]: "compress [] xs = []" "compress bm [] = []"
  by (simp_all add: compress_def)

lemma compress_Cons [simp]:
  "compress (b # bm) (x # xs) = (if b then x # compress bm xs else compress bm xs)"
  by (simp add: compress_def)

lemma compress_zip: "zip (compress bm xs) (compress bm ys) = compress bm (zip xs ys)"
proof (induction bm arbitrary: xs ys)
  case Nil
  then show ?case by simp
next
  case (Cons b bm)
  show ?case
  proof (cases xs)
    case Nil
    then show ?thesis by simp
  next
    case xs: (Cons x xs')
    show ?thesis
    proof (cases ys)
      case Nil
      then show ?thesis by simp
    next
      case (Cons y ys')
      with xs Cons.IH show ?thesis by simp
    qed
  qed
qed

lemma compress_keys:
  "compress (map P cols) (zip cols r) = filter (\<lambda>kv. P (fst kv)) (zip cols r)"
proof (induction cols arbitrary: r)
  case Nil
  then show ?case by simp
next
  case (Cons c cols)
  then show ?case by (cases r) simp_all
qed

lemma map_of_filter_keys:
  "map_of (filter (\<lambda>kv. P (fst kv)) xs) k = (if P k then map_of xs k else None)"
  by (induction xs) auto

lemma cell_of_compress:
  assumes "P name"
  shows "cell_of (compress (map P cols) cols) (compress (map P cols) r) name = cell_of cols r name"
  using assms by (simp add: cell_of_def compress_zip compress_keys map_of_filter_keys)

lemma columns_drop_unnamed:
  "columns (drop_unnamed t) = filter (\<lambda>c. \<not> prefix ''Unnamed'' c) (columns t)"
  by (simp add: drop_unnamed_def Let_def compress_map)

lemma rows_drop_unnamed:
  "rows (drop_unnamed t) =
     map (compress (map (\<lambda>c. \<not> prefix ''Unnamed'' c) (columns t))) (rows t)"
  by (simp add: drop_unnamed_def Let_def)

lemma getitem_drop_unnamed:
  assumes "\<not> prefix ''Unnamed'' name"
  shows "getitem (drop_unnamed t) name = getitem t name"
proof -
  have "cell_of (columns (drop_unnamed t))
          (compress (map (\<lambda>c. \<not> prefix ''Unnamed'' c) (columns t)) r) name =
        cell_of (columns t) r name" for r
    using cell_of_compress [of "\<lambda>c. \<not> prefix ''Unnamed'' c" name "columns t" r] assms
    by (simp add: drop_unnamed_def Let_def)
  then show ?thesis
    using assms
    by (simp add: getitem_def rows_drop_unnamed comp_def) (simp add: columns_drop_unnamed)
qed

lemma archive_unpacked:
  "unpack_archive archive_fs = Inr (extractall [(csv_path, CsvFile raw_table)] archive_fs)"
  by (simp add: unpack_archive_def archive_fs_def)

lemma archive_csv:
  "extractall [(csv_path, CsvFile raw_table)] archive_fs csv_path = Some (CsvFile raw_table)"
  by (simp add: extractall_def)

lemma raw_table_dropped: "drop_unnamed raw_table = loaded_table"
  by (simp add: drop_unnamed_def raw_table_def loaded_table_def)

text \<open>
  C9. When the CSV is in the directory once the archive, if there is one, has been
  unpacked, the loader returns the table read from it without the columns whose names
  begin with "Unnamed": the other columns are kept, in their order and with their cells,
  and no row is lost. When the CSV is not there, the loader fails with FileNotFoundError.
\<close>

theorem load_data_drops_index_columns:
  "(unpack_archive fs = Inr fs1 \<and> fs1 csv_path = Some (CsvFile t) \<longrightarrow>
      load_data fs = Inr (drop_unnamed t) \<and>
      columns (drop_unnamed t) = filter (\<lambda>c. \<not> prefix ''Unnamed'' c) (columns t) \<and>
      length (rows (drop_unnamed t)) = length (rows t) \<and>
      (\<forall>name. \<not> prefix ''Unnamed'' name \<longrightarrow>
         getitem (drop_unnamed t) name = getitem t name) \<and>
      (\<forall>name. prefix ''Unnamed'' name \<longrightarrow> name \<notin> set (columns (drop_unnamed t)))) \<and>
   (unpack_archive fs = Inr fs1 \<and> fs1 csv_path = None \<longrightarrow>
      load_data fs = Inl FileNotFoundError) \<and>
   (fs zip_path = None \<and> fs csv_path = None \<longrightarrow> load_data fs = Inl FileNotFoundError)"
proof (intro conjI impI allI)
  assume a: "unpack_archive fs = Inr fs1 \<and> fs1 csv_path = Some (CsvFile t)"
  then show "load_data fs = Inr (drop_unnamed t)"
    by (simp add: load_data_def read_csv_def)
  show "columns (drop_unnamed t) = filter (\<lambda>c. \<not> prefix ''Unnamed'' c) (columns t)"
    by (rule columns_drop_unnamed)
  show "length (rows (drop_unnamed t)) = length (rows t)"
    by (simp add: rows_drop_unnamed)
  show "getitem (drop_unnamed t) name = getitem t name"
    if "\<not> prefix ''Unnamed'' name" for name
    using that by (rule getitem_drop_unnamed)
  show "name \<notin> set (columns (drop_unnamed t))" if "prefix ''Unnamed'' name" for name
    using that by (simp add: columns_drop_unnamed)
next
  assume "unpack_archive fs = Inr fs1 \<and> fs1 csv_path = None"
  then show "load_data fs = Inl FileNotFoundError"
    by (simp add: load_data_def read_csv_def)
next
  assume "fs zip_path = None \<and> fs csv_path = None"
  then show "load_data fs = Inl FileNotFoundError"
    by (simp add: load_data_def unpack_archive_def read_csv_def)
qed

theorem load_data_drops_index_columns_witness:
  "unpack_archive archive_fs = Inr (extractall [(csv_path, CsvFile raw_table)] archive_fs) \<and>
   extractall [(csv_path, CsvFile raw_table)] archive_fs csv_path = Some (CsvFile raw_table) \<and>
   load_data archive_fs = Inr loaded_table \<and>
   getitem loaded_table ''price'' = getitem raw_table ''price'' \<and>
   load_data Map.empty = Inl FileNotFoundError"
proof -
  note t = load_data_drops_index_columns
    [of archive_fs "extractall [(csv_path, CsvFile raw_table)] archive_fs" raw_table]
  from t archive_unpacked archive_csv have "load_data archive_fs = Inr (drop_unnamed raw_table)"
    by blast
  then have l: "load_data archive_fs = Inr loaded_table"
    by (simp only: raw_table_dropped)
  have p: "\<not> prefix ''Unnamed'' ''price''"
    by simp
  from t archive_unpacked archive_csv p
  have "getitem (drop_unnamed raw_table) ''price'' = getitem raw_table ''price''"
    by blast
  then have g: "getitem loaded_table ''price'' = getitem raw_table ''price''"
    by (simp only: raw_table_dropped)
  have "Map.empty zip_path = None \<and> Map.empty csv_path = None"
    by simp
  with load_data_drops_index_columns [of Map.empty]
  have e: "load_data Map.empty = Inl FileNotFoundError"
    by blast
  show ?thesis
    using archive_unpacked archive_csv l g e by blast
qed

end
